theory Spec2Isabelle
  imports Main
begin

section \<open>Errors\<close>

text \<open>
  Every exception that can leave a function of \<^verbatim>\<open>chinese_memorial_calendar.py\<close> is a
  value of this type; a function that may raise returns \<open>error + 'a\<close>, \<open>Inl\<close> the
  exception.
\<close>

datatype error =
    ValueError          \<comment> \<open>\<^verbatim>\<open>datetime(...)\<close> with a field out of range; an end before the begin\<close>
  | OverflowError       \<comment> \<open>\<^verbatim>\<open>datetime + timedelta\<close> leaving the range of \<^verbatim>\<open>datetime\<close>\<close>
  | InvalidLunarDate    \<comment> \<open>the lunar converter was asked for a date that does not exist\<close>
  | InvalidRange        \<comment> \<open>named by the specification; no function of the program raises it\<close>
  | OSError             \<comment> \<open>\<^verbatim>\<open>open(filepath, 'w')\<close> could not open the file\<close>

section \<open>Python's \<^verbatim>\<open>datetime\<close>\<close>

text \<open>
  The program computes with \<^verbatim>\<open>datetime.datetime\<close> values: it builds them from a year,
  a month and a day, replaces their time of day by midnight, and adds or subtracts
  \<^verbatim>\<open>timedelta(days=1)\<close>. The standard library does that arithmetic on proleptic
  Gregorian ordinals (day 1 is 0001-01-01); the functions below follow it.
\<close>

definition MINYEAR :: int where "MINYEAR = 1"
definition MAXYEAR :: int where "MAXYEAR = 9999"
definition MAXORDINAL :: int where "MAXORDINAL = 3652059"

definition DAYS_IN_MONTH :: "int list" where
  "DAYS_IN_MONTH = [-1, 31, 28, 31, 30, 31, 30, 31, 31, 30, 31, 30, 31]"

definition DAYS_BEFORE_MONTH :: "int list" where
  "DAYS_BEFORE_MONTH = [-1, 0, 31, 59, 90, 120, 151, 181, 212, 243, 273, 304, 334]"

definition is_leap :: "int \<Rightarrow> bool" where
  "is_leap year \<longleftrightarrow> year mod 4 = 0 \<and> (year mod 100 \<noteq> 0 \<or> year mod 400 = 0)"

definition days_before_year :: "int \<Rightarrow> int" where
  "days_before_year year = (let y = year - 1 in y * 365 + y div 4 - y div 100 + y div 400)"

definition days_in_month :: "int \<Rightarrow> int \<Rightarrow> int" where
  "days_in_month year month =
     (if month = 2 \<and> is_leap year then 29 else DAYS_IN_MONTH ! nat month)"

definition days_before_month :: "int \<Rightarrow> int \<Rightarrow> int" where
  "days_before_month year month =
     DAYS_BEFORE_MONTH ! nat month + (if month > 2 \<and> is_leap year then 1 else 0)"

definition ymd2ord :: "int \<Rightarrow> int \<Rightarrow> int \<Rightarrow> int" where
  "ymd2ord year month day = days_before_year year + days_before_month year month + day"

definition ord2ymd :: "int \<Rightarrow> int \<times> int \<times> int" where
  "ord2ymd n0 =
     (let n = n0 - 1;
          n400 = n div 146097; n = n mod 146097;
          year = n400 * 400 + 1;
          n100 = n div 36524; n = n mod 36524;
          n4 = n div 1461; n = n mod 1461;
          n1 = n div 365; n = n mod 365;
          year = year + n100 * 100 + n4 * 4 + n1
      in if n1 = 4 \<or> n100 = 4 then (year - 1, 12, 31)
         else
           let leapyear = (n1 = 3 \<and> (n4 \<noteq> 24 \<or> n100 = 3));
               month = (n + 50) div 32;
               preceding = DAYS_BEFORE_MONTH ! nat month
                             + (if month > 2 \<and> leapyear then 1 else 0)
           in if preceding > n
              then
                let month = month - 1;
                    preceding = preceding
                      - (DAYS_IN_MONTH ! nat month + (if month = 2 \<and> leapyear then 1 else 0))
                in (year, month, n - preceding + 1)
              else (year, month, n - preceding + 1))"

text \<open>
  A \<^verbatim>\<open>datetime\<close>: the calendar date, the time of day and the \<^verbatim>\<open>tzinfo\<close>. The program
  only ever passes \<^verbatim>\<open>self.timezone\<close> as \<^verbatim>\<open>tzinfo\<close>; its name stands for it.
\<close>

record datetime =
  dt_year :: int
  dt_month :: int
  dt_day :: int
  dt_hour :: int
  dt_minute :: int
  dt_second :: int
  dt_microsecond :: int
  dt_tzinfo :: string

text \<open>\<^verbatim>\<open>datetime(year, month, day, tzinfo=tz)\<close>: the fields are checked, the time is midnight.\<close>

definition mk_datetime :: "int \<Rightarrow> int \<Rightarrow> int \<Rightarrow> string \<Rightarrow> error + datetime" where
  "mk_datetime year month day tz =
     (if \<not> (MINYEAR \<le> year \<and> year \<le> MAXYEAR) then Inl ValueError
      else if \<not> (1 \<le> month \<and> month \<le> 12) then Inl ValueError
      else if \<not> (1 \<le> day \<and> day \<le> days_in_month year month) then Inl ValueError
      else Inr \<lparr>dt_year = year, dt_month = month, dt_day = day,
                dt_hour = 0, dt_minute = 0, dt_second = 0, dt_microsecond = 0,
                dt_tzinfo = tz\<rparr>)"

text \<open>\<^verbatim>\<open>d.replace(hour=0, minute=0, second=0, microsecond=0)\<close>\<close>

definition replace_midnight :: "datetime \<Rightarrow> datetime" where
  "replace_midnight d = d\<lparr>dt_hour := 0, dt_minute := 0, dt_second := 0, dt_microsecond := 0\<rparr>"

definition toordinal :: "datetime \<Rightarrow> int" where
  "toordinal d = ymd2ord (dt_year d) (dt_month d) (dt_day d)"

text \<open>
  \<^verbatim>\<open>d + timedelta(days=k)\<close> (and \<^verbatim>\<open>d - timedelta(days=1)\<close>, which is \<open>k = -1\<close>): the
  ordinal moves by \<open>k\<close>, the time of day and the \<^verbatim>\<open>tzinfo\<close> stay, and a result outside
  \<open>1 .. MAXORDINAL\<close> raises \<^verbatim>\<open>OverflowError\<close>.
\<close>

definition add_days :: "datetime \<Rightarrow> int \<Rightarrow> error + datetime" where
  "add_days d k =
     (let days = toordinal d + k
      in if 0 < days \<and> days \<le> MAXORDINAL
         then (case ord2ymd days of
                 (y, m, dd) \<Rightarrow> Inr (d\<lparr>dt_year := y, dt_month := m, dt_day := dd\<rparr>))
         else Inl OverflowError)"

text \<open>The whole days between two dates: the \<^verbatim>\<open>days\<close> of \<^verbatim>\<open>a.date() - b.date()\<close>.\<close>

definition days_between :: "datetime \<Rightarrow> datetime \<Rightarrow> int" where
  "days_between a b = toordinal a - toordinal b"

definition is_midnight :: "datetime \<Rightarrow> bool" where
  "is_midnight d \<longleftrightarrow>
     dt_hour d = 0 \<and> dt_minute d = 0 \<and> dt_second d = 0 \<and> dt_microsecond d = 0"

text \<open>
  \<^verbatim>\<open>a < b\<close> and \<^verbatim>\<open>a == b\<close> for two values with the same \<^verbatim>\<open>tzinfo\<close>, as all values of the
  program have: by the day, then by the time of day (in microseconds).
\<close>

definition time_of_day :: "datetime \<Rightarrow> int" where
  "time_of_day d =
     ((dt_hour d * 60 + dt_minute d) * 60 + dt_second d) * 1000000 + dt_microsecond d"

definition dt_less :: "datetime \<Rightarrow> datetime \<Rightarrow> bool" where
  "dt_less a b \<longleftrightarrow>
     toordinal a < toordinal b \<or> (toordinal a = toordinal b \<and> time_of_day a < time_of_day b)"

definition dt_eq :: "datetime \<Rightarrow> datetime \<Rightarrow> bool" where
  "dt_eq a b \<longleftrightarrow> toordinal a = toordinal b \<and> time_of_day a = time_of_day b"


section \<open>Strings\<close>

text \<open>
  A Python \<^verbatim>\<open>str\<close> is modelled by its UTF-8 bytes. \<^verbatim>\<open>str(i)\<close> for an integer is its
  decimal notation. \<^verbatim>\<open>str.lower\<close> follows the case tables of Unicode, which are not part
  of the sources: the functions that call it take it as a parameter \<open>lower\<close>.
  \<open>lower_ascii\<close> is what it does to a string of ASCII characters.
\<close>

definition digit_char :: "nat \<Rightarrow> char" where
  "digit_char n = char_of (48 + n)"

function str_nat :: "nat \<Rightarrow> string" where
  "str_nat n = (if n < 10 then [digit_char n] else str_nat (n div 10) @ [digit_char (n mod 10)])"
  by pat_completeness auto
termination
  by (relation "measure id") auto

definition str_int :: "int \<Rightarrow> string" where
  "str_int i = (if i < 0 then CHR ''-'' # str_nat (nat (- i)) else str_nat (nat i))"

definition zfill :: "nat \<Rightarrow> string \<Rightarrow> string" where
  "zfill k s = replicate (k - length s) CHR ''0'' @ s"

text \<open>\<^verbatim>\<open>str(d.date())\<close>: the ISO format \<^verbatim>\<open>%04d-%02d-%02d\<close>.\<close>

definition date_isoformat :: "datetime \<Rightarrow> string" where
  "date_isoformat d =
     zfill 4 (str_int (dt_year d)) @ ''-'' @ zfill 2 (str_int (dt_month d)) @ ''-''
       @ zfill 2 (str_int (dt_day d))"

definition ascii_lower :: "char \<Rightarrow> char" where
  "ascii_lower c =
     (let n = (of_char c :: nat) in if 65 \<le> n \<and> n \<le> 90 then char_of (n + 32) else c)"

definition lower_ascii :: "string \<Rightarrow> string" where
  "lower_ascii s = map ascii_lower s"

text \<open>\<^verbatim>\<open>s.replace(a, b)\<close> for a one-character \<open>a\<close>, and \<^verbatim>\<open>s.replace(a, '')\<close>.\<close>

definition replace_char :: "char \<Rightarrow> char \<Rightarrow> string \<Rightarrow> string" where
  "replace_char a b s = map (\<lambda>c. if c = a then b else c) s"

definition remove_char :: "char \<Rightarrow> string \<Rightarrow> string" where
  "remove_char a s = filter (\<lambda>c. c \<noteq> a) s"

text \<open>\<^verbatim>\<open>os.path.join(a, b)\<close> on a POSIX system.\<close>

definition path_join :: "string \<Rightarrow> string \<Rightarrow> string" where
  "path_join a b =
     (if take 1 b = ''/'' then b
      else if a = [] \<or> last a = CHR ''/'' then a @ b
      else a @ ''/'' @ b)"

section \<open>Calendar events\<close>

text \<open>
  The state of an \<^verbatim>\<open>ics.Event\<close>: the name, the begin, the stored end (\<open>None\<close> when
  there is none), whether the event is all-day, and the description.
\<close>

record event =
  ev_name :: string
  ev_begin :: datetime
  ev_end :: "datetime option"
  ev_all_day :: bool
  ev_description :: string

text \<open>
  The \<^verbatim>\<open>ics\<close> package is not part of the sources. The program uses its 0.7 interface
  (\<^verbatim>\<open>calendar.events.add\<close>, \<^verbatim>\<open>calendar.serialize()\<close>); the four operations of
  \<^verbatim>\<open>ics.Event\<close> that the program calls are modelled as that version has them.

  \<^verbatim>\<open>event = ics.Event(); event.name = name; event.begin = begin\<close>: an event that is not
  all-day, with no end and no description.
\<close>

definition new_event :: "string \<Rightarrow> datetime \<Rightarrow> event" where
  "new_event name begin =
     \<lparr>ev_name = name, ev_begin = begin, ev_end = None, ev_all_day = False,
      ev_description = []\<rparr>"

text \<open>
  \<^verbatim>\<open>event.end = value\<close>: the setter raises \<^verbatim>\<open>ValueError('End must be after begin')\<close> for
  a value before the begin; a value equal to the begin is stored.
\<close>

definition set_end :: "event \<Rightarrow> datetime \<Rightarrow> error + event" where
  "set_end e v =
     (if dt_less v (ev_begin e) then Inl ValueError
      else Inr (e\<lparr>ev_end := Some v\<rparr>))"

text \<open>
  \<^verbatim>\<open>event.end\<close>, the exclusive end that is serialised: the stored end; without one, the
  day after the begin for an all-day event (the specification's
  \<^verbatim>\<open>end_date_exclusive = start_date + 1 day\<close>), and the begin itself for an event that is
  not all-day (an event of no duration).
\<close>

definition end_date_exclusive :: "event \<Rightarrow> error + datetime" where
  "end_date_exclusive e =
     (case ev_end e of
        Some d \<Rightarrow> Inr d
      | None \<Rightarrow> if ev_all_day e then add_days (ev_begin e) 1 else Inr (ev_begin e))"

text \<open>
  \<^verbatim>\<open>event.make_all_day()\<close>: nothing for an all-day event. Otherwise the begin moves to
  the midnight of its day; an end on the day of the begin is cleared, and any other end
  becomes the midnight of its day plus one day ("the event will span all the days
  from the begin to the end day"), which raises \<^verbatim>\<open>OverflowError\<close> past 9999-12-31.
\<close>

definition make_all_day :: "event \<Rightarrow> error + event" where
  "make_all_day e =
     (if ev_all_day e then Inr e
      else
        (case end_date_exclusive e of
           Inl err \<Rightarrow> Inl err
         | Inr en \<Rightarrow>
             (let begin_day = replace_midnight (ev_begin e);
                  end_day = replace_midnight en
              in if dt_eq begin_day end_day
                 then Inr (e\<lparr>ev_begin := begin_day, ev_end := None, ev_all_day := True\<rparr>)
                 else
                   (case add_days end_day 1 of
                      Inl err \<Rightarrow> Inl err
                    | Inr d \<Rightarrow>
                        Inr (e\<lparr>ev_begin := begin_day, ev_end := Some d,
                               ev_all_day := True\<rparr>)))))"

text \<open>\<^verbatim>\<open>_create_multiday_event(self, name, start_date, end_date, description)\<close>\<close>

definition create_multiday_event ::
    "string \<Rightarrow> datetime \<Rightarrow> datetime \<Rightarrow> string \<Rightarrow> error + event" where
  "create_multiday_event name start_date end_date description =
     (let event = new_event name (replace_midnight start_date)
      in case add_days end_date 1 of
           Inl err \<Rightarrow> Inl err
         | Inr day_after \<Rightarrow>
        (case set_end event (replace_midnight day_after) of
           Inl err \<Rightarrow> Inl err
         | Inr event \<Rightarrow>
        (case make_all_day event of
           Inl err \<Rightarrow> Inl err
         | Inr event \<Rightarrow> Inr (event\<lparr>ev_description := description\<rparr>))))"

text \<open>\<^verbatim>\<open>_create_event(self, name, date, description)\<close>: no end is assigned.\<close>

definition create_event :: "string \<Rightarrow> datetime \<Rightarrow> string \<Rightarrow> error + event" where
  "create_event name date description =
     (let event = new_event name (replace_midnight date)
      in case make_all_day event of
           Inl err \<Rightarrow> Inl err
         | Inr event \<Rightarrow> Inr (event\<lparr>ev_description := description\<rparr>))"

section \<open>The lunar calendar\<close>

text \<open>\<^verbatim>\<open>Solar(year, month, day)\<close> and \<^verbatim>\<open>Lunar(year, month, day, isleap=False)\<close>.\<close>

record solar =
  s_year :: int
  s_month :: int
  s_day :: int

record lunar =
  l_year :: int
  l_month :: int
  l_day :: int
  l_isleap :: bool

definition Solar :: "int \<Rightarrow> int \<Rightarrow> int \<Rightarrow> solar" where
  "Solar year month day = \<lparr>s_year = year, s_month = month, s_day = day\<rparr>"

definition Lunar :: "int \<Rightarrow> int \<Rightarrow> int \<Rightarrow> lunar" where
  "Lunar year month day =
     \<lparr>l_year = year, l_month = month, l_day = day, l_isleap = False\<rparr>"

text \<open>
  Modelled from the spec: \<^verbatim>\<open>Converter.Lunar2Solar\<close> and \<^verbatim>\<open>Converter.Solar2Lunar\<close> belong
  to the \<^verbatim>\<open>lunarcalendar\<close> package, which is not part of the sources. The spec describes
  them as a deterministic mapping between lunar and solar dates given by a reference
  conversion table, and its inverse mapping; a lunar date that does not exist (day 30
  of a month of 29 days) fails with \<^verbatim>\<open>InvalidLunarDate\<close>. The table is a parameter: the
  list of the lunar dates that exist, each with its solar date.
\<close>

type_synonym lunar_table = "(lunar \<times> solar) list"

definition Lunar2Solar :: "lunar_table \<Rightarrow> lunar \<Rightarrow> error + solar" where
  "Lunar2Solar tbl l =
     (case map_of tbl l of
        None \<Rightarrow> Inl InvalidLunarDate
      | Some s \<Rightarrow> Inr s)"

definition Solar2Lunar :: "lunar_table \<Rightarrow> solar \<Rightarrow> error + lunar" where
  "Solar2Lunar tbl s =
     (case map_of (map (\<lambda>(l, s'). (s', l)) tbl) s of
        None \<Rightarrow> Inl InvalidLunarDate
      | Some l \<Rightarrow> Inr l)"

section \<open>The class \<^verbatim>\<open>ChineseMemorialCalendar\<close>\<close>

record anniversary =
  a_name :: string
  a_chinese_name :: string
  a_lunar_month :: int
  a_lunar_day :: int
  a_notes :: string

record calendar =
  cal_year :: int
  cal_timezone :: string
  cal_anniversaries :: "anniversary list"
  cal_output_dir :: string

text \<open>\<^verbatim>\<open>__init__(self, year, output_dir)\<close>; the local time zone comes from the environment.\<close>

definition init :: "int \<Rightarrow> string \<Rightarrow> string \<Rightarrow> calendar" where
  "init year tz output_dir =
     \<lparr>cal_year = year, cal_timezone = tz, cal_anniversaries = [], cal_output_dir = output_dir\<rparr>"

text \<open>\<^verbatim>\<open>_solar_to_lunar(self, solar_date)\<close>\<close>

definition solar_to_lunar :: "lunar_table \<Rightarrow> calendar \<Rightarrow> datetime \<Rightarrow> error + lunar" where
  "solar_to_lunar tbl self solar_date =
     (let solar = Solar (dt_year solar_date) (dt_month solar_date) (dt_day solar_date)
      in Solar2Lunar tbl solar)"

text \<open>
  \<^verbatim>\<open>_lunar_to_solar(self, lunar_month, lunar_day, year=None)\<close>. In
  \<^verbatim>\<open>year = year or self.year\<close> both \<^verbatim>\<open>None\<close> and \<open>0\<close> give \<^verbatim>\<open>self.year\<close>.
\<close>

definition lunar_to_solar ::
    "lunar_table \<Rightarrow> calendar \<Rightarrow> int \<Rightarrow> int \<Rightarrow> int option \<Rightarrow> error + datetime" where
  "lunar_to_solar tbl self lunar_month lunar_day year =
     (let year = (case year of
                    None \<Rightarrow> cal_year self
                  | Some y \<Rightarrow> if y = 0 then cal_year self else y);
          lunar_date = Lunar year lunar_month lunar_day
      in case Lunar2Solar tbl lunar_date of
           Inl err \<Rightarrow> Inl err
         | Inr solar_date \<Rightarrow>
             mk_datetime (s_year solar_date) (s_month solar_date) (s_day solar_date)
               (cal_timezone self))"

subsection \<open>The fixed occasions\<close>

definition qingming_name :: string where
  "qingming_name =
     ''Qingming Festival '' @
     [CHR 0xE6, CHR 0xB8, CHR 0x85, CHR 0xE6, CHR 0x98, CHR 0x8E, CHR 0xE8, CHR 0x8A, CHR 0x82]"

definition qingming_desc :: string where
  "qingming_desc =
     [CHR 0xE6, CHR 0xB8, CHR 0x85, CHR 0xE6, CHR 0x98, CHR 0x8E, CHR 0xE8, CHR 0x8A, CHR 0x82] @
     '' - Qingming Festival'' @ [CHR 0x0A] @
     ''Traditional tomb sweeping and ancestral worship day.'' @ [CHR 0x0A] @
     ''Traditional offerings include:'' @ [CHR 0x0A] @ ''- Incense ('' @
     [CHR 0xE9, CHR 0xA6, CHR 0x99] @ '')'' @ [CHR 0x0A] @ ''- Fresh flowers ('' @
     [CHR 0xE9, CHR 0xB2, CHR 0x9C, CHR 0xE8, CHR 0x8A, CHR 0xB1] @ '')'' @
     [CHR 0x0A] @ ''- Food offerings ('' @
     [CHR 0xE9, CHR 0xA3, CHR 0x9F, CHR 0xE5, CHR 0x93, CHR 0x81] @ '')''"

definition winter_solstice_name :: string where
  "winter_solstice_name =
     ''Winter Solstice '' @
     [CHR 0xE5, CHR 0x86, CHR 0xAC, CHR 0xE8, CHR 0x87, CHR 0xB3]"

definition winter_solstice_desc :: string where
  "winter_solstice_desc =
     [CHR 0xE5, CHR 0x86, CHR 0xAC, CHR 0xE8, CHR 0x87, CHR 0xB3] @
     '' - Winter Solstice'' @ [CHR 0x0A] @
     ''Traditional family reunion day with ancestral remembrance.'' @ [CHR 0x0A] @
     ''Common practices include family gathering and special meals.''"

text \<open>\<^verbatim>\<open>generate_solar_calendar_events(self)\<close>\<close>

definition generate_solar_calendar_events :: "calendar \<Rightarrow> error + (string \<times> event) list" where
  "generate_solar_calendar_events self =
     (case mk_datetime (cal_year self) 4 5 (cal_timezone self) of
        Inl err \<Rightarrow> Inl err
      | Inr qingming_date \<Rightarrow>
     (case create_event qingming_name qingming_date qingming_desc of
        Inl err \<Rightarrow> Inl err
      | Inr qingming_event \<Rightarrow>
     (case mk_datetime (cal_year self) 12 22 (cal_timezone self) of
        Inl err \<Rightarrow> Inl err
      | Inr winter_solstice_date \<Rightarrow>
     (case create_event winter_solstice_name winter_solstice_date winter_solstice_desc of
        Inl err \<Rightarrow> Inl err
      | Inr winter_solstice_event \<Rightarrow>
          Inr [(''qingming.ics'', qingming_event),
               (''winter_solstice.ics'', winter_solstice_event)]))))"

definition ghost_month_name :: string where
  "ghost_month_name =
     ''Ghost Month '' @
     [CHR 0xE9, CHR 0xAC, CHR 0xBC, CHR 0xE6, CHR 0x9C, CHR 0x88]"

definition ghost_festival_desc :: string where
  "ghost_festival_desc =
     [CHR 0xE4, CHR 0xB8, CHR 0xAD, CHR 0xE5, CHR 0x85, CHR 0x83, CHR 0xE8, CHR 0x8A, CHR 0x82] @
     '' - Ghost Month ('' @
     [CHR 0xE9, CHR 0xAC, CHR 0xBC, CHR 0xE6, CHR 0x9C, CHR 0x88] @ '')'' @
     [CHR 0x0A] @
     ''The entire 7th lunar month is the Ghost Month, with the 15th day being the Ghost Festival peak.'' @
     [CHR 0x0A] @ ''Traditional practices include:'' @ [CHR 0x0A] @
     ''- Making offerings to ancestors and wandering spirits'' @ [CHR 0x0A] @
     ''- Burning joss paper and incense'' @ [CHR 0x0A] @
     ''- Avoiding major life changes or events'' @ [CHR 0x0A, CHR 0x0A] @
     ''Peak Day (15th): '' @
     [CHR 0xE4, CHR 0xB8, CHR 0xAD, CHR 0xE5, CHR 0x85, CHR 0x83, CHR 0xE8, CHR 0x8A, CHR 0x82, CHR 0x0A] @
     ''Traditional offerings include:'' @ [CHR 0x0A] @ ''- Incense ('' @
     [CHR 0xE9, CHR 0xA6, CHR 0x99] @ '')'' @ [CHR 0x0A] @ ''- Food offerings ('' @
     [CHR 0xE9, CHR 0xA3, CHR 0x9F, CHR 0xE5, CHR 0x93, CHR 0x81] @ '')'' @
     [CHR 0x0A] @ ''- Joss paper ('' @
     [CHR 0xE7, CHR 0xBA, CHR 0xB8, CHR 0xE9, CHR 0x92, CHR 0xB1] @ '')'' @
     [CHR 0x0A] @ ''- Fruits ('' @
     [CHR 0xE6, CHR 0xB0, CHR 0xB4, CHR 0xE6, CHR 0x9E, CHR 0x9C] @ '')'' @
     [CHR 0x0A] @ ''- Tea ('' @ [CHR 0xE8, CHR 0x8C, CHR 0xB6] @ '')''"

definition nye_name :: string where
  "nye_name =
     ''Chinese New Year'' @ [CHR 0x27] @ ''s Eve '' @
     [CHR 0xE9, CHR 0x99, CHR 0xA4, CHR 0xE5, CHR 0xA4, CHR 0x95]"

definition nye_desc :: string where
  "nye_desc =
     [CHR 0xE9, CHR 0x99, CHR 0xA4, CHR 0xE5, CHR 0xA4, CHR 0x95] @
     '' - Chinese New Year'' @ [CHR 0x27] @ ''s Eve'' @ [CHR 0x0A] @
     ''Traditional family reunion dinner.'' @ [CHR 0x0A] @
     ''Custom includes leaving an empty seat and chopsticks for deceased family members.'' @
     [CHR 0x0A] @ ''Traditional practices include:'' @ [CHR 0x0A] @
     ''- Family reunion dinner'' @ [CHR 0x0A] @ ''- Ancestral worship'' @
     [CHR 0x0A] @ ''- Setting out offerings''"

text \<open>
  \<^verbatim>\<open>generate_lunar_calendar_events(self)\<close>. The last day of the 7th month is asked for
  as day 30; the eve is the day before day 1 of month 1 of \<^verbatim>\<open>self.year\<close>.
\<close>

definition generate_lunar_calendar_events ::
    "lunar_table \<Rightarrow> calendar \<Rightarrow> error + (string \<times> event) list" where
  "generate_lunar_calendar_events tbl self =
     (case lunar_to_solar tbl self 7 1 None of
        Inl err \<Rightarrow> Inl err
      | Inr ghost_month_start \<Rightarrow>
     (case lunar_to_solar tbl self 7 30 None of
        Inl err \<Rightarrow> Inl err
      | Inr ghost_month_end \<Rightarrow>
     (case create_multiday_event ghost_month_name ghost_month_start ghost_month_end
             ghost_festival_desc of
        Inl err \<Rightarrow> Inl err
      | Inr ghost_event \<Rightarrow>
     (case lunar_to_solar tbl self 1 1 (Some (cal_year self)) of
        Inl err \<Rightarrow> Inl err
      | Inr new_year \<Rightarrow>
     (case add_days new_year (- 1) of
        Inl err \<Rightarrow> Inl err
      | Inr nye_date \<Rightarrow>
     (case create_event nye_name nye_date nye_desc of
        Inl err \<Rightarrow> Inl err
      | Inr nye_event \<Rightarrow>
          Inr [(''ghost_month.ics'', ghost_event),
               (''chinese_new_year_eve.ics'', nye_event)]))))))"

subsection \<open>The anniversaries\<close>







definition yue :: string where
  "yue =
     [CHR 0xE6, CHR 0x9C, CHR 0x88]"

definition ri :: string where
  "ri =
     [CHR 0xE6, CHR 0x97, CHR 0xA5, CHR 0x0A]"

definition anniversary_title :: "anniversary \<Rightarrow> string" where
  "anniversary_title a =
     (if a_chinese_name a \<noteq> [] then a_name a @ '' ('' @ a_chinese_name a @ '')''
      else a_name a)"

definition anniversary_description :: "anniversary \<Rightarrow> string" where
  "anniversary_description a =
     anniversary_title a @ [CHR 0x0A]
       @ ''Lunar Date: '' @ str_int (a_lunar_month a) @ yue @ str_int (a_lunar_day a) @ ri
       @ [CHR 0x0A] @ ''Notes: '' @ (if a_notes a \<noteq> [] then a_notes a else []) @ [CHR 0x0A]"

definition anniversary_filename :: "(string \<Rightarrow> string) \<Rightarrow> anniversary \<Rightarrow> string" where
  "anniversary_filename lower a =
     remove_char (CHR 0x27)
       (replace_char CHR '' '' CHR ''_'' (lower (''anniversary_'' @ a_name a @ ''.ics'')))"

text \<open>The loop of \<^verbatim>\<open>generate_anniversary_events\<close>, \<open>events\<close> the list built so far.\<close>

fun anniversary_events ::
    "(string \<Rightarrow> string) \<Rightarrow> lunar_table \<Rightarrow> calendar \<Rightarrow> (string \<times> event) list
       \<Rightarrow> anniversary list \<Rightarrow> error + (string \<times> event) list" where
  "anniversary_events lower tbl self events [] = Inr events"
| "anniversary_events lower tbl self events (a # rest) =
     (case lunar_to_solar tbl self (a_lunar_month a) (a_lunar_day a) None of
        Inl err \<Rightarrow> Inl err
      | Inr date \<Rightarrow>
     (case create_event (anniversary_title a) date (anniversary_description a) of
        Inl err \<Rightarrow> Inl err
      | Inr ev \<Rightarrow>
          anniversary_events lower tbl self
            (events @ [(anniversary_filename lower a, ev)]) rest))"

definition generate_anniversary_events ::
    "(string \<Rightarrow> string) \<Rightarrow> lunar_table \<Rightarrow> calendar \<Rightarrow> error + (string \<times> event) list" where
  "generate_anniversary_events lower tbl self =
     anniversary_events lower tbl self [] (cal_anniversaries self)"

subsection \<open>Writing the files\<close>

text \<open>
  What the program prints and the files it writes, in order. The text of a file is the
  serialisation of one event by the \<^verbatim>\<open>ics\<close> package; the event stands for it. Whether
  \<^verbatim>\<open>open(filepath, 'w')\<close> succeeds depends on the file system (a name with a \<^verbatim>\<open>/\<close> asks
  for a directory that may not exist): the parameter \<open>can_open\<close> says for which paths it
  does.
\<close>

record world =
  printed :: "string list"
  written :: "(string \<times> event) list"

text \<open>\<^verbatim>\<open>filepath = os.path.join(self.output_dir, filename.replace(',', ''))\<close>\<close>

definition event_path :: "calendar \<Rightarrow> string \<Rightarrow> string" where
  "event_path self filename = path_join (cal_output_dir self) (remove_char CHR '','' filename)"

text \<open>
  \<^verbatim>\<open>_save_event_to_file(self, event, filename)\<close>: the line is printed before the file is
  opened.
\<close>

definition save_event_to_file ::
    "(string \<Rightarrow> bool) \<Rightarrow> calendar \<Rightarrow> event \<Rightarrow> string \<Rightarrow> world
       \<Rightarrow> (error + string) \<times> world" where
  "save_event_to_file can_open self ev filename w =
     (let w1 = w\<lparr>printed := printed w @ [ev_name ev @ '' : '' @ date_isoformat (ev_begin ev)]\<rparr>;
          filepath = event_path self filename
      in if can_open filepath
         then (Inr filepath, w1\<lparr>written := written w1 @ [(filepath, ev)]\<rparr>)
         else (Inl OSError, w1))"

text \<open>The loop of \<^verbatim>\<open>generate_calendars\<close>: it stops at the first file that cannot be opened.\<close>

fun save_all ::
    "(string \<Rightarrow> bool) \<Rightarrow> calendar \<Rightarrow> string list \<Rightarrow> (string \<times> event) list \<Rightarrow> world
       \<Rightarrow> (error + string list) \<times> world" where
  "save_all can_open self generated_files [] w = (Inr generated_files, w)"
| "save_all can_open self generated_files ((filename, ev) # rest) w =
     (case save_event_to_file can_open self ev filename w of
        (Inl err, w') \<Rightarrow> (Inl err, w')
      | (Inr filepath, w') \<Rightarrow>
          save_all can_open self (generated_files @ [filepath]) rest w')"

text \<open>
  \<^verbatim>\<open>generate_calendars(self)\<close>. The three lists are built and concatenated before the
  first file is written, so an exception of a generator leaves the world as it was.
\<close>

definition generate_calendars ::
    "(string \<Rightarrow> string) \<Rightarrow> (string \<Rightarrow> bool) \<Rightarrow> lunar_table \<Rightarrow> calendar \<Rightarrow> world
       \<Rightarrow> (error + string list) \<times> world" where
  "generate_calendars lower can_open tbl self w =
     (case generate_solar_calendar_events self of
        Inl err \<Rightarrow> (Inl err, w)
      | Inr solar_events \<Rightarrow>
     (case generate_lunar_calendar_events tbl self of
        Inl err \<Rightarrow> (Inl err, w)
      | Inr lunar_events \<Rightarrow>
     (case generate_anniversary_events lower tbl self of
        Inl err \<Rightarrow> (Inl err, w)
      | Inr anniv_events \<Rightarrow>
          save_all can_open self [] (solar_events @ lunar_events @ anniv_events) w)))"

section \<open>Example data\<close>

text \<open>
  A few rows of the Chinese calendar, used to run the definitions on concrete input:
  in 2022 the 7th month has 29 days (2022-07-29 to 2022-08-26), in 2024 it has 30
  (2024-08-04 to 2024-09-02); the lunar years 2022 and 2024 begin on 2022-02-01 and
  2024-02-10, and the 1st month of 2024 has 29 days (2024-02-10 to 2024-03-09).
\<close>

definition sample_table :: lunar_table where
  "sample_table =
     [(Lunar 2022 1 1, Solar 2022 2 1),
      (Lunar 2022 7 1, Solar 2022 7 29),
      (Lunar 2022 7 29, Solar 2022 8 26),
      (Lunar 2024 1 1, Solar 2024 2 10),
      (Lunar 2024 3 15, Solar 2024 4 23),
      (Lunar 2024 7 1, Solar 2024 8 4),
      (Lunar 2024 7 29, Solar 2024 9 1),
      (Lunar 2024 7 30, Solar 2024 9 2)]"

text \<open>The file name and the date of the begin of each event of a list.\<close>

definition event_dates :: "(string \<times> event) list \<Rightarrow> (string \<times> datetime) list" where
  "event_dates evs = map (\<lambda>(filename, ev). (filename, ev_begin ev)) evs"

definition grandmother :: anniversary where
  "grandmother =
     \<lparr>a_name = ''Grandmother'', a_chinese_name = [], a_lunar_month = 3, a_lunar_day = 15,
      a_notes = []\<rparr>"

definition sample_calendar :: calendar where
  "sample_calendar =
     (init 2024 ''UTC'' ''calendar_events'')\<lparr>cal_anniversaries := [grandmother]\<rparr>"

text \<open>An anniversary on day 30 of the 1st month, which 2024 does not have.\<close>

definition great_uncle :: anniversary where
  "great_uncle =
     \<lparr>a_name = ''Great Uncle'', a_chinese_name = [], a_lunar_month = 1, a_lunar_day = 30,
      a_notes = []\<rparr>"

definition unresolvable_calendar :: calendar where
  "unresolvable_calendar =
     (init 2024 ''UTC'' ''calendar_events'')\<lparr>cal_anniversaries := [great_uncle]\<rparr>"

definition every_path :: "string \<Rightarrow> bool" where
  "every_path filepath = True"

definition empty_world :: world where
  "empty_world = \<lparr>printed = [], written = []\<rparr>"



definition midnight :: "int \<Rightarrow> int \<Rightarrow> int \<Rightarrow> string \<Rightarrow> datetime" where
  "midnight y m d tz =
     \<lparr>dt_year = y, dt_month = m, dt_day = d, dt_hour = 0, dt_minute = 0, dt_second = 0,
      dt_microsecond = 0, dt_tzinfo = tz\<rparr>"



section \<open>The date arithmetic\<close>

text \<open>
  Converting an ordinal to a date and back gives the ordinal again; hence adding
  \<open>k\<close> days moves the ordinal by exactly \<open>k\<close>.
\<close>

lemma div_split_int:
  fixes k q r :: int
  assumes "0 \<le> r" "r < k"
  shows "(k * q + r) div k = q"
  using assms by (simp add: div_pos_pos_trivial)

lemma mod_zero_top:
  fixes k x :: int
  assumes "0 < x" "x \<le> k"
  shows "x mod k = 0 \<longleftrightarrow> x = k"
proof (cases "x = k")
  case True
  then show ?thesis by simp
next
  case False
  with assms have "x mod k = x" by (simp add: mod_pos_pos_trivial)
  with assms False show ?thesis by simp
qed

lemma month_part:
  fixes n :: int and L :: bool
  assumes "0 \<le> n" "n < 365 \<or> (L \<and> n < 366)"
  defines "month \<equiv> (n + 50) div 32"
  defines "preceding \<equiv> DAYS_BEFORE_MONTH ! nat month + (if month > 2 \<and> L then 1 else 0)"
  shows "(if preceding > n
          then DAYS_BEFORE_MONTH ! nat (month - 1) + (if month - 1 > 2 \<and> L then 1 else 0)
               = preceding - (DAYS_IN_MONTH ! nat (month - 1) + (if month - 1 = 2 \<and> L then 1 else 0))
               \<and> 1 \<le> month - 1
          else True) \<and> 1 \<le> month \<and> month \<le> 12"
proof -
  have b: "1 \<le> month" "month \<le> 12" using assms(1,2) unfolding month_def by auto
  have nb: "32 * month - 50 \<le> n" "n < 32 * month - 18" unfolding month_def by presburger+
  from b have "month = 1 \<or> month = 2 \<or> month = 3 \<or> month = 4 \<or> month = 5 \<or> month = 6
    \<or> month = 7 \<or> month = 8 \<or> month = 9 \<or> month = 10 \<or> month = 11 \<or> month = 12"
    by presburger
  then show ?thesis
    using assms(1) nb unfolding preceding_def
    by (elim disjE) (simp_all add: DAYS_BEFORE_MONTH_def DAYS_IN_MONTH_def)
qed

lemma year_part:
  fixes a b c d :: int
  assumes "0 \<le> b" "b \<le> 3" "0 \<le> c" "c \<le> 24" "0 \<le> d" "d \<le> 3"
  defines "year \<equiv> a * 400 + 1 + b * 100 + c * 4 + d"
  shows "days_before_year year = 146097 * a + 36524 * b + 1461 * c + 365 * d"
    and "is_leap year \<longleftrightarrow> (d = 3 \<and> (c \<noteq> 24 \<or> b = 3))"
proof -
  have "year - 1 = 4 * (100 * a + 25 * b + c) + d" unfolding year_def by simp
  then have d4: "(year - 1) div 4 = 100 * a + 25 * b + c"
    using div_split_int[of d 4 "100 * a + 25 * b + c"] assms(5,6) by simp
  have "year - 1 = 100 * (4 * a + b) + (4 * c + d)" unfolding year_def by simp
  then have d100: "(year - 1) div 100 = 4 * a + b"
    using div_split_int[of "4 * c + d" 100 "4 * a + b"] assms(3-6) by simp
  have "year - 1 = 400 * a + (100 * b + 4 * c + d)" unfolding year_def by simp
  then have d400: "(year - 1) div 400 = a"
    using div_split_int[of "100 * b + 4 * c + d" 400 a] assms(1-6) by simp
  show "days_before_year year = 146097 * a + 36524 * b + 1461 * c + 365 * d"
    unfolding days_before_year_def Let_def d4 d100 d400 unfolding year_def by simp
  have "year = 4 * (100 * a + 25 * b + c) + (d + 1)" unfolding year_def by simp
  then have "year mod 4 = (d + 1) mod 4" by (metis mod_mult_self4)
  then have m4: "year mod 4 = 0 \<longleftrightarrow> d = 3"
    using mod_zero_top[of "d + 1" 4] assms(5,6) by simp
  have "year = 100 * (4 * a + b) + (4 * c + d + 1)" unfolding year_def by simp
  then have "year mod 100 = (4 * c + d + 1) mod 100" by (metis mod_mult_self4)
  then have m100: "year mod 100 = 0 \<longleftrightarrow> 4 * c + d + 1 = 100"
    using mod_zero_top[of "4 * c + d + 1" 100] assms(3-6) by simp
  have "year = 400 * a + (100 * b + 4 * c + d + 1)" unfolding year_def by simp
  then have "year mod 400 = (100 * b + 4 * c + d + 1) mod 400" by (metis mod_mult_self4)
  then have m400: "year mod 400 = 0 \<longleftrightarrow> 100 * b + 4 * c + d + 1 = 400"
    using mod_zero_top[of "100 * b + 4 * c + d + 1" 400] assms(1-6) by simp
  show "is_leap year \<longleftrightarrow> (d = 3 \<and> (c \<noteq> 24 \<or> b = 3))"
    unfolding is_leap_def m4 m100 m400 using assms(1-6) by auto
qed

lemma ord2ymd_regular:
  fixes a b c d r :: int
  assumes "0 \<le> b" "b \<le> 3" "0 \<le> c" "c \<le> 24" "0 \<le> d" "d \<le> 3" "0 \<le> r" "r < 365"
  defines "year \<equiv> a * 400 + 1 + b * 100 + c * 4 + d"
  defines "L \<equiv> (d = 3 \<and> (c \<noteq> 24 \<or> b = 3))"
  defines "month \<equiv> (r + 50) div 32"
  defines "preceding \<equiv> DAYS_BEFORE_MONTH ! nat month + (if month > 2 \<and> L then 1 else 0)"
  shows "ymd2ord year (if preceding > r then month - 1 else month)
           (r - (if preceding > r
                 then preceding - (DAYS_IN_MONTH ! nat (month - 1) + (if month - 1 = 2 \<and> L then 1 else 0))
                 else preceding) + 1)
         = 146097 * a + 36524 * b + 1461 * c + 365 * d + r + 1"
proof -
  have y: "days_before_year year = 146097 * a + 36524 * b + 1461 * c + 365 * d"
    and l: "is_leap year = L"
    using year_part[OF assms(1-6), of a] unfolding year_def L_def by simp_all
  have m: "(if preceding > r
          then DAYS_BEFORE_MONTH ! nat (month - 1) + (if month - 1 > 2 \<and> L then 1 else 0)
               = preceding - (DAYS_IN_MONTH ! nat (month - 1) + (if month - 1 = 2 \<and> L then 1 else 0))
               \<and> 1 \<le> month - 1
          else True) \<and> 1 \<le> month \<and> month \<le> 12"
    unfolding preceding_def month_def
    by (rule month_part[OF assms(7)]) (simp add: assms(8))
  show ?thesis
  proof (cases "preceding > r")
    case True
    with m have "days_before_month year (month - 1)
       = preceding - (DAYS_IN_MONTH ! nat (month - 1) + (if month - 1 = 2 \<and> L then 1 else 0))"
      unfolding days_before_month_def l by simp
    with True show ?thesis unfolding ymd2ord_def y by simp
  next
    case False
    have "days_before_month year month = preceding"
      unfolding days_before_month_def l preceding_def by simp
    with False show ?thesis unfolding ymd2ord_def y by simp
  qed
qed

lemma year_end_part:
  fixes a b c :: int
  assumes "0 \<le> b" "b \<le> 3" "0 \<le> c" "c \<le> 23"
  shows "days_before_year (a * 400 + 1 + b * 100 + c * 4 + 4 - 1)
           = 146097 * a + 36524 * b + 1461 * c + 365 * 4 - 365 \<and>
         is_leap (a * 400 + 1 + b * 100 + c * 4 + 4 - 1)"
proof -
  have e: "a * 400 + 1 + b * 100 + c * 4 + 4 - 1 = a * 400 + 1 + b * 100 + c * 4 + 3"
    by simp
  have "c \<le> 24" "c \<noteq> 24" using assms(4) by simp_all
  with year_part[of b c 3 a] assms(1-3) show ?thesis
    unfolding e by simp
qed

lemma year_400_part:
  fixes a :: int
  shows "days_before_year (a * 400 + 1 + 4 * 100 + 0 * 4 + 0 - 1)
           = 146097 * a + 36524 * 4 + 1461 * 0 + 365 * 0 - 365 \<and>
         is_leap (a * 400 + 1 + 4 * 100 + 0 * 4 + 0 - 1)"
proof -
  have e: "a * 400 + 1 + 4 * 100 + 0 * 4 + 0 - 1 = a * 400 + 1 + 3 * 100 + 24 * 4 + 3"
    by simp
  show ?thesis unfolding e using year_part[of 3 24 3 a] by simp
qed

lemma ymd2ord_ord2ymd: "(case ord2ymd n of (y, m, d) \<Rightarrow> ymd2ord y m d) = n"
proof -
  define k where "k = n - 1"
  define a where "a = k div 146097"
  define r1 where "r1 = k mod 146097"
  define b where "b = r1 div 36524"
  define r2 where "r2 = r1 mod 36524"
  define c where "c = r2 div 1461"
  define r3 where "r3 = r2 mod 1461"
  define d where "d = r3 div 365"
  define r where "r = r3 mod 365"
  have k: "k = 146097 * a + r1" and r1: "0 \<le> r1" "r1 < 146097"
    unfolding a_def r1_def by simp_all
  have r1e: "r1 = 36524 * b + r2" and r2: "0 \<le> r2" "r2 < 36524"
    unfolding b_def r2_def by simp_all
  have r2e: "r2 = 1461 * c + r3" and r3: "0 \<le> r3" "r3 < 1461"
    unfolding c_def r3_def by simp_all
  have r3e: "r3 = 365 * d + r" and r: "0 \<le> r" "r < 365"
    unfolding d_def r_def by simp_all
  have b: "0 \<le> b" "b \<le> 4" using r1 r1e r2 by linarith+
  have c: "0 \<le> c" "c \<le> 24" using r2 r2e r3 by linarith+
  have d: "0 \<le> d" "d \<le> 4" using r3 r3e r by linarith+
  have unf: "ord2ymd n =
     (if d = 4 \<or> b = 4 then (a * 400 + 1 + b * 100 + c * 4 + d - 1, 12, 31)
         else
           let leapyear = (d = 3 \<and> (c \<noteq> 24 \<or> b = 3));
               month = (r + 50) div 32;
               preceding = DAYS_BEFORE_MONTH ! nat month
                             + (if month > 2 \<and> leapyear then 1 else 0)
           in if preceding > r
              then
                let month = month - 1;
                    preceding = preceding
                      - (DAYS_IN_MONTH ! nat month + (if month = 2 \<and> leapyear then 1 else 0))
                in (a * 400 + 1 + b * 100 + c * 4 + d, month, r - preceding + 1)
              else (a * 400 + 1 + b * 100 + c * 4 + d, month, r - preceding + 1))"
    unfolding ord2ymd_def k_def a_def r1_def b_def r2_def c_def r3_def d_def r_def Let_def
    by (rule refl)
  show ?thesis
  proof (cases "d = 4 \<or> b = 4")
    case False
    then have bd: "b \<le> 3" "d \<le> 3" using b d by simp_all
    define L where "L = (d = 3 \<and> (c \<noteq> 24 \<or> b = 3))"
    define mo where "mo = (r + 50) div 32"
    define pre where "pre = DAYS_BEFORE_MONTH ! nat mo + (if mo > 2 \<and> L then 1 else 0)"
    have reg: "ymd2ord (a * 400 + 1 + b * 100 + c * 4 + d) (if pre > r then mo - 1 else mo)
           (r - (if pre > r
                 then pre - (DAYS_IN_MONTH ! nat (mo - 1) + (if mo - 1 = 2 \<and> L then 1 else 0))
                 else pre) + 1)
         = 146097 * a + 36524 * b + 1461 * c + 365 * d + r + 1"
      unfolding pre_def mo_def L_def
      by (rule ord2ymd_regular[OF b(1) bd(1) c d(1) bd(2) r])
    have o: "ord2ymd n = (a * 400 + 1 + b * 100 + c * 4 + d, (if pre > r then mo - 1 else mo),
           (r - (if pre > r
                 then pre - (DAYS_IN_MONTH ! nat (mo - 1) + (if mo - 1 = 2 \<and> L then 1 else 0))
                 else pre) + 1))"
    proof (cases "pre > r")
      case True
      then have "r < DAYS_BEFORE_MONTH ! nat ((r + 50) div 32) +
          (if 2 < (r + 50) div 32 \<and> d = 3 \<and> (c \<noteq> 24 \<or> b = 3) then 1 else 0)"
        unfolding pre_def mo_def L_def by simp
      then show ?thesis using False True unfolding unf Let_def pre_def mo_def L_def
        by (simp only: if_True if_False)
    next
      case nt: False
      then have "\<not> r < DAYS_BEFORE_MONTH ! nat ((r + 50) div 32) +
          (if 2 < (r + 50) div 32 \<and> d = 3 \<and> (c \<noteq> 24 \<or> b = 3) then 1 else 0)"
        unfolding pre_def mo_def L_def by simp
      then show ?thesis using False nt unfolding unf Let_def pre_def mo_def L_def
        by (simp only: if_True if_False)
    qed
    have "(case ord2ymd n of (y, m, dd) \<Rightarrow> ymd2ord y m dd)
             = 146097 * a + 36524 * b + 1461 * c + 365 * d + r + 1"
      unfolding o using reg by simp
    then show ?thesis using k r1e r2e r3e unfolding k_def by simp
  next
    case True
    have rz: "r = 0 \<and> (b = 4 \<longrightarrow> c = 0 \<and> d = 0) \<and> (b \<noteq> 4 \<longrightarrow> d = 4 \<and> c \<le> 23)"
    proof (cases "b = 4")
      case True
      with r1e r1 r2 have "r2 = 0" by simp
      with r2e c(1) r3 have "c = 0" by linarith
      with \<open>r2 = 0\<close> r2e have "r3 = 0" by simp
      with r3e d(1) r have "d = 0" by linarith
      with \<open>r3 = 0\<close> r3e have "r = 0" by simp
      with True \<open>c = 0\<close> \<open>d = 0\<close> show ?thesis by simp
    next
      case False
      with \<open>d = 4 \<or> b = 4\<close> have d4: "d = 4" by simp
      with r3e r3 r have "r = 0" by linarith
      moreover from d4 r3e r2e r2 r have "c \<le> 23" by linarith
      ultimately show ?thesis using False d4 by simp
    qed
    have y: "days_before_year (a * 400 + 1 + b * 100 + c * 4 + d - 1)
               = 146097 * a + 36524 * b + 1461 * c + 365 * d - 365 \<and>
             is_leap (a * 400 + 1 + b * 100 + c * 4 + d - 1)"
    proof (cases "b = 4")
      case True
      with rz have cd: "c = 0" "d = 0" by simp_all
      show ?thesis unfolding True cd by (rule year_400_part)
    next
      case False
      with rz b have d4: "d = 4" and b3: "b \<le> 3" and c23: "c \<le> 23" by simp_all
      show ?thesis unfolding d4 by (rule year_end_part[OF b(1) b3 c(1) c23])
    qed
    have "(case ord2ymd n of (y, m, dd) \<Rightarrow> ymd2ord y m dd)
             = 146097 * a + 36524 * b + 1461 * c + 365 * d + 1"
      using True y unfolding unf ymd2ord_def days_before_month_def
      by (simp add: DAYS_BEFORE_MONTH_def)
    then show ?thesis using k r1e r2e r3e rz unfolding k_def by simp
  qed
qed

lemma toordinal_add_days:
  assumes "add_days d k = Inr d'"
  shows "toordinal d' = toordinal d + k"
proof -
  from assms obtain y m dd where o: "ord2ymd (toordinal d + k) = (y, m, dd)"
    and d': "d' = d\<lparr>dt_year := y, dt_month := m, dt_day := dd\<rparr>"
    unfolding add_days_def Let_def by (auto split: if_splits prod.splits)
  have "ymd2ord y m dd = toordinal d + k"
    using ymd2ord_ord2ymd[of "toordinal d + k"] unfolding o by simp
  then show ?thesis unfolding d' toordinal_def by simp
qed

lemma add_days_time:
  assumes "add_days d k = Inr d'"
  shows "dt_hour d' = dt_hour d" "dt_minute d' = dt_minute d" "dt_second d' = dt_second d"
    "dt_microsecond d' = dt_microsecond d" "dt_tzinfo d' = dt_tzinfo d"
  using assms unfolding add_days_def Let_def by (auto split: if_splits prod.splits)

lemma add_days_in_range:
  assumes "0 < toordinal d + k" "toordinal d + k \<le> MAXORDINAL"
  shows "\<exists>d'. add_days d k = Inr d'"
  using assms unfolding add_days_def Let_def by (auto split: prod.splits)

lemma add_days_overflow:
  assumes "\<not> (0 < toordinal d + k \<and> toordinal d + k \<le> MAXORDINAL)"
  shows "add_days d k = Inl OverflowError"
  using assms unfolding add_days_def Let_def by auto

lemma toordinal_replace_midnight [simp]: "toordinal (replace_midnight d) = toordinal d"
  unfolding toordinal_def replace_midnight_def by simp

lemma is_midnight_replace_midnight [simp]: "is_midnight (replace_midnight d)"
  unfolding is_midnight_def replace_midnight_def by simp

section \<open>The event builders\<close>

lemma time_of_day_replace_midnight [simp]: "time_of_day (replace_midnight d) = 0"
  unfolding time_of_day_def replace_midnight_def by simp

lemma replace_midnight_idem [simp]: "replace_midnight (replace_midnight d) = replace_midnight d"
  unfolding replace_midnight_def by simp

lemma dt_less_midnight [simp]:
  "dt_less (replace_midnight a) (replace_midnight b) \<longleftrightarrow> toordinal a < toordinal b"
  unfolding dt_less_def by simp

lemma dt_eq_midnight [simp]:
  "dt_eq (replace_midnight a) (replace_midnight b) \<longleftrightarrow> toordinal a = toordinal b"
  unfolding dt_eq_def by simp

lemma replace_midnight_midnight [simp]: "replace_midnight (midnight y m d tz) = midnight y m d tz"
  unfolding replace_midnight_def midnight_def by simp

lemma create_event_eq:
  "create_event name d description =
     Inr \<lparr>ev_name = name, ev_begin = replace_midnight d, ev_end = None, ev_all_day = True,
          ev_description = description\<rparr>"
  unfolding create_event_def new_event_def make_all_day_def end_date_exclusive_def Let_def
  by simp

text \<open>
  The three outcomes of the multi-day builder, by the place of the day after the end
  date: before the start date, on it, or after it.
\<close>

lemma create_multiday_event_eq:
  assumes "add_days d2 1 = Inr n"
  shows "create_multiday_event name d1 d2 description =
     (if toordinal d2 + 1 < toordinal d1 then Inl ValueError
      else if toordinal d2 + 1 = toordinal d1
      then Inr \<lparr>ev_name = name, ev_begin = replace_midnight d1, ev_end = None,
                ev_all_day = True, ev_description = description\<rparr>
      else (case add_days (replace_midnight n) 1 of
              Inl err \<Rightarrow> Inl err
            | Inr x \<Rightarrow>
                Inr \<lparr>ev_name = name, ev_begin = replace_midnight d1, ev_end = Some x,
                     ev_all_day = True, ev_description = description\<rparr>))"
proof -
  have o: "toordinal n = toordinal d2 + 1" by (rule toordinal_add_days[OF assms])
  show ?thesis
    unfolding create_multiday_event_def new_event_def set_end_def make_all_day_def
      end_date_exclusive_def Let_def assms
    using o by (auto split: sum.splits)
qed

lemma create_multiday_event_name:
  assumes "create_multiday_event name d1 d2 description = Inr e"
  shows "ev_name e = name"
proof -
  from assms obtain n where n: "add_days d2 1 = Inr n"
    unfolding create_multiday_event_def Let_def by (auto split: sum.splits)
  from assms show ?thesis
    unfolding create_multiday_event_eq[OF n] by (auto split: if_splits sum.splits)
qed

text \<open>
  For dates \<open>d1 \<le> d2\<close> the exclusive end of the event is two days after \<open>d2\<close>: one
  day is added by the builder, and one more by \<^verbatim>\<open>make_all_day\<close>.
\<close>

lemma multiday_event_span_plus_two:
  assumes "0 < toordinal d1" and "toordinal d1 \<le> toordinal d2"
    and "toordinal d2 + 2 \<le> MAXORDINAL"
  shows "\<exists>e x. create_multiday_event title d1 d2 description = Inr e
           \<and> ev_begin e = replace_midnight d1
           \<and> ev_all_day e
           \<and> end_date_exclusive e = Inr x
           \<and> is_midnight x
           \<and> days_between x (ev_begin e) = days_between d2 d1 + 2"
proof -
  from assms have "0 < toordinal d2 + 1" "toordinal d2 + 1 \<le> MAXORDINAL" by simp_all
  then obtain n where n: "add_days d2 1 = Inr n"
    using add_days_in_range by blast
  have o: "toordinal n = toordinal d2 + 1" by (rule toordinal_add_days[OF n])
  with assms have "0 < toordinal (replace_midnight n) + 1"
    "toordinal (replace_midnight n) + 1 \<le> MAXORDINAL" by simp_all
  then obtain x where x: "add_days (replace_midnight n) 1 = Inr x"
    using add_days_in_range by blast
  have ox: "toordinal x = toordinal d2 + 2" using toordinal_add_days[OF x] o by simp
  have mx: "is_midnight x"
    using add_days_time[OF x] is_midnight_replace_midnight[of n] unfolding is_midnight_def
    by simp
  have c: "create_multiday_event title d1 d2 description =
      Inr \<lparr>ev_name = title, ev_begin = replace_midnight d1, ev_end = Some x,
                     ev_all_day = True, ev_description = description\<rparr>"
    unfolding create_multiday_event_eq[OF n] x using assms(2) by simp
  show ?thesis unfolding c
    using ox mx by (simp add: end_date_exclusive_def days_between_def)
qed

text \<open>
  Claim C4. For dates \<open>d1 \<le> d2\<close> the exclusive end of the multi-day event minus its
  begin should be \<open>(d2 - d1) + 1\<close> days, as the comment of the builder says ("End date
  should be the day after the last day"). For the Ghost Month of 2024, 2024-08-04 to
  2024-09-02, that is 30 days; the builder returns an event that ends on 2024-09-04,
  31 days after its begin.
\<close>

theorem multiday_event_one_day_late:
  "create_multiday_event ''Ghost Month'' (midnight 2024 8 4 ''UTC'')
       (midnight 2024 9 2 ''UTC'') ''the 7th month''
     = Inr \<lparr>ev_name = ''Ghost Month'', ev_begin = midnight 2024 8 4 ''UTC'',
            ev_end = Some (midnight 2024 9 4 ''UTC''), ev_all_day = True,
            ev_description = ''the 7th month''\<rparr>
   \<and> end_date_exclusive
         \<lparr>ev_name = ''Ghost Month'', ev_begin = midnight 2024 8 4 ''UTC'',
          ev_end = Some (midnight 2024 9 4 ''UTC''), ev_all_day = True,
          ev_description = ''the 7th month''\<rparr>
       = Inr (midnight 2024 9 4 ''UTC'')
   \<and> days_between (midnight 2024 9 4 ''UTC'') (midnight 2024 8 4 ''UTC'') = 31
   \<and> days_between (midnight 2024 9 2 ''UTC'') (midnight 2024 8 4 ''UTC'') + 1 = 30"
  by code_simp

text \<open>
  Claim C5 says that the builder fails with \<^verbatim>\<open>InvalidRange\<close> when the inclusive end is
  before the start. With the start 2024-08-05 and the end 2024-08-04 it returns an
  all-day event of one day, 2024-08-05, with the exclusive end 2024-08-06.
\<close>

theorem multiday_event_end_day_before_counterexample:
  "create_multiday_event ''x'' (midnight 2024 8 5 ''UTC'') (midnight 2024 8 4 ''UTC'') ''y''
     = Inr \<lparr>ev_name = ''x'', ev_begin = midnight 2024 8 5 ''UTC'', ev_end = None,
            ev_all_day = True, ev_description = ''y''\<rparr>
   \<and> end_date_exclusive
         \<lparr>ev_name = ''x'', ev_begin = midnight 2024 8 5 ''UTC'', ev_end = None,
          ev_all_day = True, ev_description = ''y''\<rparr>
       = Inr (midnight 2024 8 6 ''UTC'')
   \<and> toordinal (midnight 2024 8 4 ''UTC'') < toordinal (midnight 2024 8 5 ''UTC'')"
  by code_simp

text \<open>
  Claim C5, amended. For an inclusive end date before the start date the builder has
  two outcomes. When the end date is two or more days before the start date it fails,
  with the \<^verbatim>\<open>ValueError\<close> of the end setter of \<^verbatim>\<open>ics.Event\<close>. When the end date is the
  day before the start date it returns an all-day event on the start date, with no
  stored end.
\<close>

theorem multiday_event_end_before_start:
  assumes "0 < toordinal d2" and "toordinal d2 < toordinal d1"
    and "toordinal d1 \<le> MAXORDINAL"
  shows "create_multiday_event title d1 d2 description =
     (if toordinal d2 + 1 < toordinal d1 then Inl ValueError
      else Inr \<lparr>ev_name = title, ev_begin = replace_midnight d1, ev_end = None,
                ev_all_day = True, ev_description = description\<rparr>)"
proof -
  from assms have "0 < toordinal d2 + 1" "toordinal d2 + 1 \<le> MAXORDINAL" by simp_all
  then obtain n where n: "add_days d2 1 = Inr n"
    using add_days_in_range by blast
  show ?thesis unfolding create_multiday_event_eq[OF n] using assms(2) by auto
qed

text \<open>
  The amended claim C5 at the start 2024-08-05, with the ends 2024-08-03 and
  2024-08-04.
\<close>

theorem multiday_event_end_before_start_witness:
  "create_multiday_event ''x'' (midnight 2024 8 5 ''UTC'') (midnight 2024 8 3 ''UTC'') ''y''
     = Inl ValueError
   \<and> create_multiday_event ''x'' (midnight 2024 8 5 ''UTC'') (midnight 2024 8 4 ''UTC'') ''y''
     = Inr \<lparr>ev_name = ''x'', ev_begin = replace_midnight (midnight 2024 8 5 ''UTC''),
            ev_end = None, ev_all_day = True, ev_description = ''y''\<rparr>"
proof -
  have 1: "0 < toordinal (midnight 2024 8 3 ''UTC'')"
    "toordinal (midnight 2024 8 3 ''UTC'') < toordinal (midnight 2024 8 5 ''UTC'')"
    "toordinal (midnight 2024 8 5 ''UTC'') \<le> MAXORDINAL"
    by code_simp+
  have 2: "0 < toordinal (midnight 2024 8 4 ''UTC'')"
    "toordinal (midnight 2024 8 4 ''UTC'') < toordinal (midnight 2024 8 5 ''UTC'')"
    by code_simp+
  have 3: "toordinal (midnight 2024 8 3 ''UTC'') + 1 < toordinal (midnight 2024 8 5 ''UTC'')"
    "\<not> toordinal (midnight 2024 8 4 ''UTC'') + 1 < toordinal (midnight 2024 8 5 ''UTC'')"
    by code_simp+
  show ?thesis
    using multiday_event_end_before_start[OF 1, of "''x''" "''y''"]
      multiday_event_end_before_start[OF 2 1(3), of "''x''" "''y''"] 3
    by simp
qed

text \<open>
  Claim C6. The single-day builder returns an all-day event that begins at the midnight
  of the date and has no stored end; its exclusive end is exactly one day after its
  begin, for every date before 9999-12-31, the last day a \<^verbatim>\<open>datetime\<close> can hold.
\<close>

theorem single_day_event_span:
  assumes "0 < toordinal d" and "toordinal d < MAXORDINAL"
  shows "\<exists>e x. create_event title d description = Inr e
           \<and> ev_begin e = replace_midnight d
           \<and> ev_all_day e
           \<and> ev_end e = None
           \<and> end_date_exclusive e = Inr x
           \<and> is_midnight x
           \<and> days_between x (ev_begin e) = 1"
proof -
  from assms have "0 < toordinal (replace_midnight d) + 1"
    "toordinal (replace_midnight d) + 1 \<le> MAXORDINAL" by simp_all
  then obtain x where x: "add_days (replace_midnight d) 1 = Inr x"
    using add_days_in_range by blast
  have o: "toordinal x = toordinal d + 1" using toordinal_add_days[OF x] by simp
  have m: "is_midnight x"
    using add_days_time[OF x] is_midnight_replace_midnight[of d] unfolding is_midnight_def
    by simp
  show ?thesis unfolding create_event_eq
    using x o m by (simp add: end_date_exclusive_def days_between_def)
qed

text \<open>
  The theorem of claim C6 at 2024-04-05.
\<close>

theorem single_day_event_span_witness:
  "\<exists>e x. create_event ''Qingming'' (midnight 2024 4 5 ''UTC'') ''tomb sweeping'' = Inr e
           \<and> ev_begin e = replace_midnight (midnight 2024 4 5 ''UTC'')
           \<and> ev_all_day e
           \<and> ev_end e = None
           \<and> end_date_exclusive e = Inr x
           \<and> is_midnight x
           \<and> days_between x (ev_begin e) = 1"
proof -
  have 1: "0 < toordinal (midnight 2024 4 5 ''UTC'')" by code_simp
  have 2: "toordinal (midnight 2024 4 5 ''UTC'') < MAXORDINAL" by code_simp
  show ?thesis by (rule single_day_event_span[OF 1 2])
qed

section \<open>The fixed solar occasions\<close>

lemma mk_datetime_4_5:
  assumes "MINYEAR \<le> y" "y \<le> MAXYEAR"
  shows "mk_datetime y 4 5 tz = Inr (midnight y 4 5 tz)"
  using assms unfolding mk_datetime_def midnight_def days_in_month_def DAYS_IN_MONTH_def
  by simp

lemma mk_datetime_12_22:
  assumes "MINYEAR \<le> y" "y \<le> MAXYEAR"
  shows "mk_datetime y 12 22 tz = Inr (midnight y 12 22 tz)"
  using assms unfolding mk_datetime_def midnight_def days_in_month_def DAYS_IN_MONTH_def
  by simp

lemma generate_solar_calendar_events_in_range:
  assumes "MINYEAR \<le> cal_year self" "cal_year self \<le> MAXYEAR"
  shows "generate_solar_calendar_events self =
           Inr [(''qingming.ics'',
                   \<lparr>ev_name = qingming_name,
                    ev_begin = midnight (cal_year self) 4 5 (cal_timezone self),
                    ev_end = None, ev_all_day = True, ev_description = qingming_desc\<rparr>),
                (''winter_solstice.ics'',
                   \<lparr>ev_name = winter_solstice_name,
                    ev_begin = midnight (cal_year self) 12 22 (cal_timezone self),
                    ev_end = None, ev_all_day = True,
                    ev_description = winter_solstice_desc\<rparr>)]"
  unfolding generate_solar_calendar_events_def
    mk_datetime_4_5[OF assms] mk_datetime_12_22[OF assms] create_event_eq by simp

lemma generate_solar_calendar_events_Inr:
  assumes "generate_solar_calendar_events self = Inr evs"
  shows "map (ev_name \<circ> snd) evs = [qingming_name, winter_solstice_name]"
    and "map fst evs = [''qingming.ics'', ''winter_solstice.ics'']"
  using assms unfolding generate_solar_calendar_events_def create_event_eq
  by (auto split: sum.splits)

text \<open>
  Claim C7. For the year 2024 the Qingming Festival event is an all-day event that
  begins on 2024-04-05, and its exclusive end is 2024-04-06.
\<close>

theorem qingming_2024:
  "\<exists>q rest. generate_solar_calendar_events (self\<lparr>cal_year := 2024\<rparr>)
               = Inr ((''qingming.ics'', q) # rest)
     \<and> ev_name q = qingming_name
     \<and> ev_begin q = midnight 2024 4 5 (cal_timezone self)
     \<and> ev_all_day q
     \<and> ev_end q = None
     \<and> end_date_exclusive q = Inr (midnight 2024 4 6 (cal_timezone self))"
proof -
  have r: "MINYEAR \<le> cal_year (self\<lparr>cal_year := 2024\<rparr>)"
    "cal_year (self\<lparr>cal_year := 2024\<rparr>) \<le> MAXYEAR"
    unfolding MINYEAR_def MAXYEAR_def by simp_all
  have "toordinal (midnight 2024 4 5 (cal_timezone self)) = 738981"
    unfolding toordinal_def midnight_def by code_simp
  moreover have "ord2ymd 738982 = (2024, 4, 6)" by code_simp
  ultimately have a: "add_days (midnight 2024 4 5 (cal_timezone self)) 1
      = Inr (midnight 2024 4 6 (cal_timezone self))"
    unfolding add_days_def Let_def MAXORDINAL_def midnight_def by simp
  show ?thesis
    unfolding generate_solar_calendar_events_in_range[OF r]
    using a by (simp add: end_date_exclusive_def)
qed

text \<open>
  The theorem of claim C7 at a calendar made for 2025 and set to 2024.
\<close>

theorem qingming_2024_witness:
  "\<exists>q rest. generate_solar_calendar_events
               ((init 2025 ''UTC'' ''calendar_events'')\<lparr>cal_year := 2024\<rparr>)
               = Inr ((''qingming.ics'', q) # rest)
     \<and> ev_name q = qingming_name
     \<and> ev_begin q = midnight 2024 4 5 (cal_timezone (init 2025 ''UTC'' ''calendar_events''))
     \<and> ev_all_day q
     \<and> ev_end q = None
     \<and> end_date_exclusive q
         = Inr (midnight 2024 4 6 (cal_timezone (init 2025 ''UTC'' ''calendar_events'')))"
  by (rule qingming_2024)

text \<open>
  Claim C10. For every year that a \<^verbatim>\<open>datetime\<close> can hold (1 to 9999) the Winter Solstice
  event is the second solar event and begins on December 22 of that year: the date is
  fixed, not computed from the year.
\<close>

theorem winter_solstice_december_22:
  assumes "MINYEAR \<le> cal_year self" and "cal_year self \<le> MAXYEAR"
  shows "\<exists>q w. generate_solar_calendar_events self = Inr [q, (''winter_solstice.ics'', w)]
     \<and> ev_name w = winter_solstice_name
     \<and> ev_begin w = midnight (cal_year self) 12 22 (cal_timezone self)
     \<and> dt_year (ev_begin w) = cal_year self
     \<and> dt_month (ev_begin w) = 12
     \<and> dt_day (ev_begin w) = 22"
  unfolding generate_solar_calendar_events_in_range[OF assms]
  by (simp add: midnight_def)

text \<open>
  The theorem of claim C10 at the year 2025.
\<close>

theorem winter_solstice_december_22_witness:
  "MINYEAR \<le> cal_year (init 2025 ''UTC'' ''calendar_events'')
   \<and> cal_year (init 2025 ''UTC'' ''calendar_events'') \<le> MAXYEAR
   \<and> (\<exists>q w. generate_solar_calendar_events (init 2025 ''UTC'' ''calendar_events'')
               = Inr [q, (''winter_solstice.ics'', w)]
     \<and> ev_name w = winter_solstice_name
     \<and> ev_begin w = midnight (cal_year (init 2025 ''UTC'' ''calendar_events'')) 12 22
                       (cal_timezone (init 2025 ''UTC'' ''calendar_events''))
     \<and> dt_year (ev_begin w) = cal_year (init 2025 ''UTC'' ''calendar_events'')
     \<and> dt_month (ev_begin w) = 12
     \<and> dt_day (ev_begin w) = 22)"
proof -
  have 1: "MINYEAR \<le> cal_year (init 2025 ''UTC'' ''calendar_events'')"
    unfolding init_def MINYEAR_def by simp
  have 2: "cal_year (init 2025 ''UTC'' ''calendar_events'') \<le> MAXYEAR"
    unfolding init_def MAXYEAR_def by simp
  show ?thesis using 1 2 winter_solstice_december_22[OF 1 2] by blast
qed

section \<open>The lunar occasions\<close>

lemma generate_lunar_calendar_events_Inr:
  assumes "generate_lunar_calendar_events tbl self = Inr evs"
  shows "\<exists>ghost_month_start ghost_month_end ghost_event new_year nye_date.
           lunar_to_solar tbl self 7 1 None = Inr ghost_month_start
         \<and> lunar_to_solar tbl self 7 30 None = Inr ghost_month_end
         \<and> create_multiday_event ghost_month_name ghost_month_start ghost_month_end
               ghost_festival_desc = Inr ghost_event
         \<and> lunar_to_solar tbl self 1 1 (Some (cal_year self)) = Inr new_year
         \<and> add_days new_year (- 1) = Inr nye_date
         \<and> evs = [(''ghost_month.ics'', ghost_event),
                   (''chinese_new_year_eve.ics'',
                    \<lparr>ev_name = nye_name, ev_begin = replace_midnight nye_date, ev_end = None,
                     ev_all_day = True, ev_description = nye_desc\<rparr>)]"
  using assms unfolding generate_lunar_calendar_events_def create_event_eq
  by (auto split: sum.splits)

lemma generate_lunar_calendar_events_names:
  assumes "generate_lunar_calendar_events tbl self = Inr evs"
  shows "map (ev_name \<circ> snd) evs = [ghost_month_name, nye_name]"
    and "map fst evs = [''ghost_month.ics'', ''chinese_new_year_eve.ics'']"
  using generate_lunar_calendar_events_Inr[OF assms]
  by (auto simp: create_multiday_event_name)

lemma sample_2024:
  "generate_lunar_calendar_events sample_table (init 2024 ''UTC'' ''calendar_events'')
     = Inr [(''ghost_month.ics'',
             \<lparr>ev_name = ghost_month_name, ev_begin = midnight 2024 8 4 ''UTC'',
              ev_end = Some (midnight 2024 9 4 ''UTC''), ev_all_day = True,
              ev_description = ghost_festival_desc\<rparr>),
            (''chinese_new_year_eve.ics'',
             \<lparr>ev_name = nye_name, ev_begin = midnight 2024 2 9 ''UTC'',
              ev_end = None, ev_all_day = True, ev_description = nye_desc\<rparr>)]"
  by code_simp

text \<open>
  Claim C1 says that the eve is one day before day 1 of month 1 of the lunar year
  \<open>Y\<close> and that its solar year is \<open>Y - 1\<close>. The lunar year 2024 begins on
  2024-02-10, so the eve of the calendar of 2024 is 2024-02-09: its year is 2024.
\<close>

theorem new_year_eve_year_counterexample:
  "map_sum id event_dates
     (generate_lunar_calendar_events sample_table (init 2024 ''UTC'' ''calendar_events''))
     = Inr [(''ghost_month.ics'', midnight 2024 8 4 ''UTC''),
            (''chinese_new_year_eve.ics'', midnight 2024 2 9 ''UTC'')]
   \<and> dt_year (midnight 2024 2 9 ''UTC'') \<noteq> cal_year (init 2024 ''UTC'' ''calendar_events'') - 1"
  by code_simp

text \<open>
  Claim C1, amended. Whenever the lunar events are produced, the second of them is the
  Chinese New Year's Eve event, and it begins at the midnight of the day that is exactly
  one day before the solar date of day 1 of month 1 of the lunar year \<^verbatim>\<open>self.year\<close>.
\<close>

theorem new_year_eve_one_day_before:
  assumes "generate_lunar_calendar_events tbl self = Inr evs"
  shows "\<exists>ghost nye new_year.
           evs = [ghost, (''chinese_new_year_eve.ics'', nye)]
         \<and> ev_name nye = nye_name
         \<and> lunar_to_solar tbl self 1 1 (Some (cal_year self)) = Inr new_year
         \<and> days_between new_year (ev_begin nye) = 1
         \<and> is_midnight (ev_begin nye)"
proof -
  from generate_lunar_calendar_events_Inr[OF assms]
  obtain ghost_event new_year nye_date where
    n: "lunar_to_solar tbl self 1 1 (Some (cal_year self)) = Inr new_year"
    and a: "add_days new_year (- 1) = Inr nye_date"
    and e: "evs = [(''ghost_month.ics'', ghost_event),
                   (''chinese_new_year_eve.ics'',
                    \<lparr>ev_name = nye_name, ev_begin = replace_midnight nye_date, ev_end = None,
                     ev_all_day = True, ev_description = nye_desc\<rparr>)]"
    by blast
  have "toordinal nye_date = toordinal new_year + (- 1)" by (rule toordinal_add_days[OF a])
  then have "days_between new_year (replace_midnight nye_date) = 1"
    unfolding days_between_def by simp
  with n e show ?thesis by simp
qed

text \<open>
  The amended claim C1 at the calendar of 2024.
\<close>

theorem new_year_eve_one_day_before_witness:
  "\<exists>ghost nye new_year.
     [(''ghost_month.ics'',
             \<lparr>ev_name = ghost_month_name, ev_begin = midnight 2024 8 4 ''UTC'',
              ev_end = Some (midnight 2024 9 4 ''UTC''), ev_all_day = True,
              ev_description = ghost_festival_desc\<rparr>),
            (''chinese_new_year_eve.ics'',
             \<lparr>ev_name = nye_name, ev_begin = midnight 2024 2 9 ''UTC'',
              ev_end = None, ev_all_day = True, ev_description = nye_desc\<rparr>)]
        = [ghost, (''chinese_new_year_eve.ics'', nye)]
   \<and> ev_name nye = nye_name
   \<and> lunar_to_solar sample_table (init 2024 ''UTC'' ''calendar_events'') 1 1
         (Some (cal_year (init 2024 ''UTC'' ''calendar_events''))) = Inr new_year
   \<and> days_between new_year (ev_begin nye) = 1
   \<and> is_midnight (ev_begin nye)"
  by (rule new_year_eve_one_day_before[OF sample_2024])

text \<open>
  The Ghost Month event is built from the day the converter gives for day 30 of the
  7th month, and its exclusive end is two days after that day; a converter that has no
  such day stops the function: day 30 is asked for in every year.
\<close>

lemma ghost_month_end_from_day_30:
  assumes "generate_lunar_calendar_events tbl self = Inr evs"
    and "lunar_to_solar tbl self 7 1 None = Inr day_1"
    and "lunar_to_solar tbl self 7 30 None = Inr day_30"
    and "toordinal day_1 \<le> toordinal day_30"
  shows "\<exists>ghost rest x.
           evs = (''ghost_month.ics'', ghost) # rest
         \<and> end_date_exclusive ghost = Inr x
         \<and> days_between x day_30 = 2"
proof -
  from generate_lunar_calendar_events_Inr[OF assms(1)] assms(2,3)
  obtain ghost_event rest where
    c: "create_multiday_event ghost_month_name day_1 day_30 ghost_festival_desc
          = Inr ghost_event"
    and r: "evs = (''ghost_month.ics'', ghost_event) # rest"
    by auto
  from c obtain n where n: "add_days day_30 1 = Inr n"
    unfolding create_multiday_event_def Let_def by (auto split: sum.splits)
  have o: "toordinal n = toordinal day_30 + 1" by (rule toordinal_add_days[OF n])
  from c assms(4) obtain x where x: "add_days (replace_midnight n) 1 = Inr x"
    and g: "ghost_event = \<lparr>ev_name = ghost_month_name, ev_begin = replace_midnight day_1,
              ev_end = Some x, ev_all_day = True, ev_description = ghost_festival_desc\<rparr>"
    unfolding create_multiday_event_eq[OF n] by (auto split: if_splits sum.splits)
  have "days_between x day_30 = 2"
    unfolding days_between_def using toordinal_add_days[OF x] o by simp
  with r g show ?thesis by (simp add: end_date_exclusive_def)
qed

lemma ghost_month_day_30_missing:
  assumes "lunar_to_solar tbl self 7 30 None = Inl err"
  shows "\<exists>err'. generate_lunar_calendar_events tbl self = Inl err'"
  using assms unfolding generate_lunar_calendar_events_def
  by (auto split: sum.splits)

text \<open>
  Claim C2. In a year whose 7th lunar month has 29 days the Ghost Month event should end
  on day 29. In 2022 the month has 29 days (day 29 is 2022-08-26, there is no day 30);
  the function asks for day 30 and ends with \<^verbatim>\<open>InvalidLunarDate\<close>.
\<close>

theorem ghost_month_29_days_fails:
  "Lunar2Solar sample_table (Lunar 2022 7 29) = Inr (Solar 2022 8 26)
   \<and> Lunar2Solar sample_table (Lunar 2022 7 30) = Inl InvalidLunarDate
   \<and> generate_lunar_calendar_events sample_table (init 2022 ''UTC'' ''calendar_events'')
       = Inl InvalidLunarDate"
  by code_simp

section \<open>Lunar to solar and back\<close>

lemma Solar2Lunar_Lunar2Solar:
  assumes "distinct (map snd tbl)" and "Lunar2Solar tbl l = Inr s"
  shows "Solar2Lunar tbl s = Inr l"
proof -
  from assms(2) have "map_of tbl l = Some s"
    unfolding Lunar2Solar_def by (simp split: option.splits)
  then have "(l, s) \<in> set tbl" by (rule map_of_SomeD)
  then have m: "(s, l) \<in> set (map (\<lambda>(l, s'). (s', l)) tbl)" by force
  have "map fst (map (\<lambda>(l, s'). (s', l)) tbl) = map snd tbl" by (induction tbl) auto
  with assms(1) have "distinct (map fst (map (\<lambda>(l, s'). (s', l)) tbl))"
    by (simp only:)
  from map_of_is_SomeI[OF this m] show ?thesis unfolding Solar2Lunar_def by simp
qed

lemma mk_datetime_fields:
  assumes "mk_datetime y m d tz = Inr dt"
  shows "dt_year dt = y" "dt_month dt = m" "dt_day dt = d" "is_midnight dt" "dt_tzinfo dt = tz"
  using assms unfolding mk_datetime_def is_midnight_def by (auto split: if_splits)

text \<open>
  Claim C3. For a lunar date that exists in its year, \<^verbatim>\<open>_lunar_to_solar\<close> followed by
  \<^verbatim>\<open>_solar_to_lunar\<close> gives the year, the month and the day again. The conversion table
  gives no solar date to two lunar dates, and the year is not \<open>0\<close> (which
  \<^verbatim>\<open>_lunar_to_solar\<close> replaces by \<^verbatim>\<open>self.year\<close>).
\<close>

theorem lunar_solar_round_trip:
  assumes "distinct (map snd tbl)" and "year \<noteq> 0"
    and "lunar_to_solar tbl self month day (Some year) = Inr solar_date"
  shows "solar_to_lunar tbl self solar_date = Inr (Lunar year month day)"
proof -
  from assms(2,3) obtain s where s: "Lunar2Solar tbl (Lunar year month day) = Inr s"
    and d: "mk_datetime (s_year s) (s_month s) (s_day s) (cal_timezone self) = Inr solar_date"
    unfolding lunar_to_solar_def Let_def by (auto split: sum.splits)
  have "Solar (dt_year solar_date) (dt_month solar_date) (dt_day solar_date) = s"
    unfolding Solar_def using mk_datetime_fields(1-3)[OF d] by simp
  then show ?thesis
    unfolding solar_to_lunar_def Let_def
    using Solar2Lunar_Lunar2Solar[OF assms(1) s] by simp
qed

text \<open>The theorem of claim C3 at day 15 of month 3 of 2024, which is 2024-04-23.\<close>

theorem lunar_solar_round_trip_witness:
  "distinct (map snd sample_table) \<and> (2024::int) \<noteq> 0
   \<and> lunar_to_solar sample_table (init 2025 ''UTC'' ''calendar_events'') 3 15 (Some 2024)
        = Inr (midnight 2024 4 23 ''UTC'')
   \<and> solar_to_lunar sample_table (init 2025 ''UTC'' ''calendar_events'')
        (midnight 2024 4 23 ''UTC'')
        = Inr (Lunar 2024 3 15)"
proof -
  have 1: "distinct (map snd sample_table)" by code_simp
  have 2: "(2024::int) \<noteq> 0" by simp
  have 3: "lunar_to_solar sample_table (init 2025 ''UTC'' ''calendar_events'') 3 15 (Some 2024)
        = Inr (midnight 2024 4 23 ''UTC'')" by code_simp
  show ?thesis using 1 2 3 lunar_solar_round_trip[OF 1 2 3] by simp
qed

section \<open>Loading the anniversaries\<close>





section \<open>The order of the files\<close>

lemma save_all_eq:
  assumes "list_all (\<lambda>(filename, ev). can_open (event_path self filename)) evs"
  shows "save_all can_open self generated_files evs w =
     (Inr (generated_files @ map (\<lambda>(filename, ev). event_path self filename) evs),
      w\<lparr>printed := printed w @ map (\<lambda>(filename, ev).
            ev_name ev @ '' : '' @ date_isoformat (ev_begin ev)) evs,
        written := written w @ map (\<lambda>(filename, ev).
            (event_path self filename, ev)) evs\<rparr>)"
  using assms
proof (induction evs arbitrary: generated_files w)
  case Nil
  show ?case by simp
next
  case (Cons p evs)
  obtain filename ev where p: "p = (filename, ev)" by (cases p)
  from Cons.prems have o: "can_open (event_path self filename)"
    and r: "list_all (\<lambda>(filename, ev). can_open (event_path self filename)) evs"
    unfolding p by simp_all
  show ?case unfolding p
    by (simp add: save_event_to_file_def Let_def o Cons.IH[OF r])
qed

lemma anniversary_events_Inr:
  assumes "anniversary_events lower tbl self events as = Inr r"
  shows "\<exists>new. r = events @ new
           \<and> map (ev_name \<circ> snd) new = map anniversary_title as
           \<and> map fst new = map (anniversary_filename lower) as"
  using assms
proof (induction as arbitrary: events)
  case Nil
  then show ?case by simp
next
  case (Cons a as)
  define ev where "ev date = \<lparr>ev_name = anniversary_title a, ev_begin = replace_midnight date,
      ev_end = None, ev_all_day = True, ev_description = anniversary_description a\<rparr>" for date
  from Cons.prems obtain date where
    r: "anniversary_events lower tbl self (events @ [(anniversary_filename lower a, ev date)])
          as = Inr r"
    unfolding ev_def by (auto simp: create_event_eq split: sum.splits)
  from Cons.IH[OF r] obtain new where
    n: "r = (events @ [(anniversary_filename lower a, ev date)]) @ new"
    and t: "map (ev_name \<circ> snd) new = map anniversary_title as"
    and f: "map fst new = map (anniversary_filename lower) as"
    by blast
  have "r = events @ ((anniversary_filename lower a, ev date) # new)" using n by simp
  moreover have "map (ev_name \<circ> snd) ((anniversary_filename lower a, ev date) # new)
                   = map anniversary_title (a # as)"
    using t by (simp add: ev_def)
  moreover have "map fst ((anniversary_filename lower a, ev date) # new)
                   = map (anniversary_filename lower) (a # as)"
    using f by simp
  ultimately show ?case by blast
qed

text \<open>
  Every anniversary whose lunar date the converter resolves gives an event.
\<close>

lemma anniversary_events_total:
  assumes "\<forall>a \<in> set as. \<exists>d. lunar_to_solar tbl self (a_lunar_month a) (a_lunar_day a) None = Inr d"
  shows "\<exists>r. anniversary_events lower tbl self events as = Inr r"
  using assms by (induction as arbitrary: events) (auto simp: create_event_eq)

text \<open>
  An exception of a generator leaves \<^verbatim>\<open>generate_calendars\<close> before the first file is
  written.
\<close>

lemma generate_calendars_generator_fails:
  assumes "generate_solar_calendar_events self = Inl err
           \<or> generate_lunar_calendar_events tbl self = Inl err
           \<or> generate_anniversary_events lower tbl self = Inl err"
  shows "\<exists>err'. generate_calendars lower can_open tbl self w = (Inl err', w)"
  using assms unfolding generate_calendars_def by (auto split: sum.splits)

text \<open>
  Claim C9 says that \<^verbatim>\<open>generate_calendars\<close> emits the events in a fixed order for every
  year and every list of anniversaries. An anniversary on day 30 of the 1st month has no
  date in 2024, where that month has 29 days: the exception of the converter ends the
  run of the calendar of 2024 before anything is printed or written. The calendar of
  2022 ends in the same way, with no anniversary at all.
\<close>

theorem generate_calendars_unresolved_counterexample:
  "Lunar2Solar sample_table (Lunar 2024 1 30) = Inl InvalidLunarDate
   \<and> generate_calendars lower_ascii every_path sample_table unresolvable_calendar empty_world
       = (Inl InvalidLunarDate, empty_world)
   \<and> generate_calendars lower_ascii every_path sample_table
         (init 2022 ''UTC'' ''calendar_events'') empty_world
       = (Inl InvalidLunarDate, empty_world)"
  by code_simp

text \<open>
  Claim C9, amended. When the three generators succeed and every file can be opened,
  \<^verbatim>\<open>generate_calendars\<close> returns, and the events it writes are, in this order: Qingming,
  Winter Solstice, Ghost Month, Chinese New Year's Eve, then one event for each record
  of \<^verbatim>\<open>self.anniversaries\<close>, in the order of the list. The file names returned are those
  of the files written, in the same order.
\<close>

theorem generate_calendars_order:
  assumes "generate_solar_calendar_events self = Inr solar_events"
    and "generate_lunar_calendar_events tbl self = Inr lunar_events"
    and "generate_anniversary_events lower tbl self = Inr anniv_events"
    and "list_all (\<lambda>(filename, ev). can_open (event_path self filename))
           (solar_events @ lunar_events @ anniv_events)"
  shows "\<exists>files w'.
           generate_calendars lower can_open tbl self w = (Inr files, w')
         \<and> map snd (written w')
             = map snd (written w) @ map snd (solar_events @ lunar_events @ anniv_events)
         \<and> map (ev_name \<circ> snd) (written w')
             = map (ev_name \<circ> snd) (written w)
               @ [qingming_name, winter_solstice_name, ghost_month_name, nye_name]
               @ map anniversary_title (cal_anniversaries self)
         \<and> files = map fst (drop (length (written w)) (written w'))
         \<and> length files = 4 + length (cal_anniversaries self)"
proof -
  let ?evs = "solar_events @ lunar_events @ anniv_events"
  define files where "files = map (\<lambda>(filename, ev). event_path self filename) ?evs"
  define w' where "w' = w\<lparr>printed := printed w @ map (\<lambda>(filename, ev).
            ev_name ev @ '' : '' @ date_isoformat (ev_begin ev)) ?evs,
        written := written w @ map (\<lambda>(filename, ev).
            (event_path self filename, ev)) ?evs\<rparr>"
  have g: "generate_calendars lower can_open tbl self w = (Inr files, w')"
    unfolding generate_calendars_def assms(1-3) files_def w'_def
    using save_all_eq[OF assms(4), of "[]" w] by simp
  have wr: "written w' = written w @ map (\<lambda>(filename, ev).
            (event_path self filename, ev)) ?evs"
    unfolding w'_def by simp
  have sn: "map snd (map (\<lambda>(filename, ev). (event_path self filename, ev)) ?evs)
          = map snd ?evs"
    by (simp add: case_prod_unfold comp_def)
  from assms(3) obtain new where "anniv_events = [] @ new"
    and "map (ev_name \<circ> snd) new = map anniversary_title (cal_anniversaries self)"
    unfolding generate_anniversary_events_def using anniversary_events_Inr by blast
  then have an: "map (ev_name \<circ> snd) anniv_events
                   = map anniversary_title (cal_anniversaries self)" by simp
  have names: "map (ev_name \<circ> snd) ?evs
      = [qingming_name, winter_solstice_name, ghost_month_name, nye_name]
               @ map anniversary_title (cal_anniversaries self)"
    using generate_solar_calendar_events_Inr(1)[OF assms(1)]
      generate_lunar_calendar_events_names(1)[OF assms(2)] an by simp
  have 1: "map snd (written w') = map snd (written w) @ map snd ?evs"
    unfolding wr using sn by simp
  have 2: "map (ev_name \<circ> snd) (written w')
             = map (ev_name \<circ> snd) (written w)
               @ [qingming_name, winter_solstice_name, ghost_month_name, nye_name]
               @ map anniversary_title (cal_anniversaries self)"
    using 1 names by (metis map_append map_map)
  have 3: "files = map fst (drop (length (written w)) (written w'))"
    unfolding wr files_def by (simp add: case_prod_unfold comp_def)
  have "length files = length (map (ev_name \<circ> snd) ?evs)" unfolding files_def by simp
  then have 4: "length files = 4 + length (cal_anniversaries self)"
    unfolding names by simp
  from g 1 2 3 4 show ?thesis by blast
qed

text \<open>
  The amended claim C9 at the calendar of 2024 with one anniversary.
\<close>

theorem generate_calendars_order_witness:
  "\<exists>files w'.
     generate_calendars lower_ascii every_path sample_table sample_calendar empty_world
       = (Inr files, w')
   \<and> map (ev_name \<circ> snd) (written w')
       = [qingming_name, winter_solstice_name, ghost_month_name, nye_name, ''Grandmother'']
   \<and> files = map fst (written w')
   \<and> length files = 5"
proof -
  have 1: "generate_solar_calendar_events sample_calendar =
           Inr [(''qingming.ics'',
                   \<lparr>ev_name = qingming_name, ev_begin = midnight 2024 4 5 ''UTC'',
                    ev_end = None, ev_all_day = True, ev_description = qingming_desc\<rparr>),
                (''winter_solstice.ics'',
                   \<lparr>ev_name = winter_solstice_name, ev_begin = midnight 2024 12 22 ''UTC'',
                    ev_end = None, ev_all_day = True,
                    ev_description = winter_solstice_desc\<rparr>)]"
    by code_simp
  have 2: "generate_lunar_calendar_events sample_table sample_calendar
     = Inr [(''ghost_month.ics'',
             \<lparr>ev_name = ghost_month_name, ev_begin = midnight 2024 8 4 ''UTC'',
              ev_end = Some (midnight 2024 9 4 ''UTC''), ev_all_day = True,
              ev_description = ghost_festival_desc\<rparr>),
            (''chinese_new_year_eve.ics'',
             \<lparr>ev_name = nye_name, ev_begin = midnight 2024 2 9 ''UTC'',
              ev_end = None, ev_all_day = True, ev_description = nye_desc\<rparr>)]"
    by code_simp
  have 3: "generate_anniversary_events lower_ascii sample_table sample_calendar
     = Inr [(anniversary_filename lower_ascii grandmother,
             \<lparr>ev_name = anniversary_title grandmother, ev_begin = midnight 2024 4 23 ''UTC'',
              ev_end = None, ev_all_day = True,
              ev_description = anniversary_description grandmother\<rparr>)]"
    by code_simp
  have 4: "list_all (\<lambda>(filename, ev). every_path (event_path sample_calendar filename))
     ([(''qingming.ics'',
                   \<lparr>ev_name = qingming_name, ev_begin = midnight 2024 4 5 ''UTC'',
                    ev_end = None, ev_all_day = True, ev_description = qingming_desc\<rparr>),
                (''winter_solstice.ics'',
                   \<lparr>ev_name = winter_solstice_name, ev_begin = midnight 2024 12 22 ''UTC'',
                    ev_end = None, ev_all_day = True,
                    ev_description = winter_solstice_desc\<rparr>)]
      @ [(''ghost_month.ics'',
             \<lparr>ev_name = ghost_month_name, ev_begin = midnight 2024 8 4 ''UTC'',
              ev_end = Some (midnight 2024 9 4 ''UTC''), ev_all_day = True,
              ev_description = ghost_festival_desc\<rparr>),
            (''chinese_new_year_eve.ics'',
             \<lparr>ev_name = nye_name, ev_begin = midnight 2024 2 9 ''UTC'',
              ev_end = None, ev_all_day = True, ev_description = nye_desc\<rparr>)]
      @ [(anniversary_filename lower_ascii grandmother,
             \<lparr>ev_name = anniversary_title grandmother, ev_begin = midnight 2024 4 23 ''UTC'',
              ev_end = None, ev_all_day = True,
              ev_description = anniversary_description grandmother\<rparr>)])"
    by (simp add: every_path_def)
  have t: "map anniversary_title (cal_anniversaries sample_calendar) = [''Grandmother'']"
    unfolding sample_calendar_def grandmother_def anniversary_title_def init_def by simp
  from generate_calendars_order[OF 1 2 3 4, of empty_world]
  show ?thesis unfolding t by (auto simp: sample_calendar_def init_def empty_world_def)
qed

end
